theory Spec2Isabelle
  imports Main "HOL-Library.Word" "HOL-Library.Multiset"
begin

section \<open>Symbols-loaded event derivation (pkg/events/derive/symbols_loaded.go)\<close>

subsection \<open>Go library functions used by the deriver\<close>

text \<open>
  \<^verbatim>\<open>strings.HasPrefix(s, prefix)\<close> of the Go standard library:
  \<^verbatim>\<open>len(s) >= len(prefix) && s[:len(prefix)] == prefix\<close>. Go strings are byte
  sequences, as \<^typ>\<open>string\<close> is.
\<close>

definition HasPrefix :: "string \<Rightarrow> string \<Rightarrow> bool" where
  "HasPrefix s pre = (length s \<ge> length pre \<and> take (length pre) s = pre)"

text \<open>
  \<^verbatim>\<open>path.Clean\<close> of the Go standard library. The output buffer \<^verbatim>\<open>out\<close> is the
  list of the bytes written so far, so that \<^verbatim>\<open>out.w\<close> is its length; \<^verbatim>\<open>r\<close> is
  kept as the rest of the path still to read.

  The \<^verbatim>\<open>..\<close> case backtracks when \<^verbatim>\<open>out.w > dotdot\<close>:
  \<^verbatim>\<open>out.w--; for out.w > dotdot && out.index(out.w) != '/' { out.w-- }\<close>.
\<close>

fun backtrack :: "string \<Rightarrow> nat \<Rightarrow> nat \<Rightarrow> nat" where
  "backtrack buf dotdot w =
     (if w > dotdot \<and> buf ! w \<noteq> CHR ''/'' then backtrack buf dotdot (w - 1) else w)"

declare backtrack.simps [simp del]

text \<open>The guards of the first three cases of the \<^verbatim>\<open>switch\<close> in the loop of Clean.\<close>

fun isSlash :: "string \<Rightarrow> bool" where
  "isSlash (c # rest) = (c = CHR ''/'')"
| "isSlash [] = False"

fun isDot :: "string \<Rightarrow> bool" where
  "isDot [c] = (c = CHR ''.'')"
| "isDot (c # d # rest) = (c = CHR ''.'' \<and> d = CHR ''/'')"
| "isDot [] = False"

fun isDotDot :: "string \<Rightarrow> bool" where
  "isDotDot [c, d] = (c = CHR ''.'' \<and> d = CHR ''.'')"
| "isDotDot (c # d # e # rest) = (c = CHR ''.'' \<and> d = CHR ''.'' \<and> e = CHR ''/'')"
| "isDotDot p = False"

function cleanLoop :: "bool \<Rightarrow> string \<Rightarrow> string \<Rightarrow> nat \<Rightarrow> string" where
  "cleanLoop rooted p out dotdot =
     (if p = [] then out
      else if isSlash p then cleanLoop rooted (drop 1 p) out dotdot
      else if isDot p then cleanLoop rooted (drop 1 p) out dotdot
      else if isDotDot p then
        (if length out > dotdot then
           cleanLoop rooted (drop 2 p)
             (take (backtrack out dotdot (length out - 1)) out) dotdot
         else if \<not> rooted then
           (let out1 = (if length out > 0 then out @ ''/'' else out);
                out2 = out1 @ ''..''
            in cleanLoop rooted (drop 2 p) out2 (length out2))
         else cleanLoop rooted (drop 2 p) out dotdot)
      else
        (let out1 = (if rooted \<and> length out \<noteq> 1 \<or> \<not> rooted \<and> length out \<noteq> 0
                     then out @ ''/'' else out)
         in cleanLoop rooted (dropWhile (\<lambda>c. c \<noteq> CHR ''/'') p)
              (out1 @ takeWhile (\<lambda>c. c \<noteq> CHR ''/'') p) dotdot))"
  by pat_completeness auto
termination
proof (relation "measure (\<lambda>(rooted, p, out, dotdot). length p)")
  fix rooted :: bool and p out x :: string and dotdot :: nat
  assume "p \<noteq> []" "\<not> isSlash p"
  then obtain c rest where p: "p = c # rest" "c \<noteq> CHR ''/''"
    by (cases p) auto
  have "length (dropWhile (\<lambda>c. c \<noteq> CHR ''/'') rest) \<le> length rest"
    by (rule length_dropWhile_le)
  with p show "((rooted, dropWhile (\<lambda>c. c \<noteq> CHR ''/'') p,
                 x @ takeWhile (\<lambda>c. c \<noteq> CHR ''/'') p, dotdot),
                rooted, p, out, dotdot)
               \<in> measure (\<lambda>(rooted, p, out, dotdot). length p)"
    by simp
qed simp_all

declare cleanLoop.simps [simp del]

definition Clean :: "string \<Rightarrow> string" where
  "Clean path =
     (if path = [] then ''.''
      else
        (let rooted = (path ! 0 = CHR ''/'');
             out = (if rooted then cleanLoop rooted (drop 1 path) ''/'' 1
                    else cleanLoop rooted path [] 0)
         in if length out = 0 then ''.'' else out))"

text \<open>
  \<^verbatim>\<open>path.Join(elem...)\<close> of the Go standard library: the empty string when all
  elements are empty; otherwise the elements, from the first non-empty one on, separated
  by slashes, and the result cleaned.
\<close>

fun joinLoop :: "string list \<Rightarrow> string \<Rightarrow> string" where
  "joinLoop [] buf = buf"
| "joinLoop (e # elem) buf =
     (if length buf > 0 \<or> e \<noteq> []
      then joinLoop elem ((if length buf > 0 then buf @ ''/'' else buf) @ e)
      else joinLoop elem buf)"

definition Join :: "string list \<Rightarrow> string" where
  "Join elem =
     (if sum_list (map length elem) = 0 then []
      else Clean (joinLoop elem []))"

subsection \<open>Events, object information and errors\<close>

text \<open>
  The dynamic value of an event argument (\<^verbatim>\<open>interface{}\<close> in \<^verbatim>\<open>trace.Argument\<close>),
  with the Go types the deriver and its test put there.
\<close>

datatype arg_value =
    VUint64 "64 word"
  | VUint32 "32 word"
  | VInt int
  | VString string
  | VNil

text \<open>\<^verbatim>\<open>trace.Argument\<close>, with the embedded \<^verbatim>\<open>ArgMeta\<close> flattened.\<close>

record Argument =
  Name :: string
  Type :: string
  Value :: arg_value

text \<open>
  \<^verbatim>\<open>trace.Event\<close>: the fields the deriver reads (\<^verbatim>\<open>Args\<close>, \<^verbatim>\<open>MountNS\<close>) and
  those its test sets. The field \<^verbatim>\<open>MountNS\<close> of the event is \<open>EventMountNS\<close> here,
  \<open>MountNS\<close> being the field of \<^verbatim>\<open>sharedobjs.ObjInfo\<close> below.
\<close>

record Event =
  EventName :: string
  EventID :: int
  HostProcessID :: int
  ProcessID :: int
  Args :: "Argument list"
  EventMountNS :: int

text \<open>\<^verbatim>\<open>sharedobjs.ObjID\<close> and \<^verbatim>\<open>sharedobjs.ObjInfo\<close>.\<close>

record ObjID =
  Inode :: "64 word"
  Device :: "32 word"
  Ctime :: "64 word"

record ObjInfo =
  ObjId :: ObjID
  Path :: string
  MountNS :: int

text \<open>
  Go's \<^verbatim>\<open>error\<close> values: the two errors of argument extraction, each naming the
  argument, and any other error a collaborator may return.
\<close>

datatype error =
    ArgNotFound string
  | ArgWrongType string
  | OtherError string

text \<open>The zero value of \<^verbatim>\<open>sharedobjs.ObjInfo\<close> (\<^verbatim>\<open>var objInfo sharedobjs.ObjInfo\<close>).\<close>

definition zeroObjInfo :: ObjInfo where
  "zeroObjInfo = \<lparr>ObjId = \<lparr>Inode = 0, Device = 0, Ctime = 0\<rparr>, Path = [], MountNS = 0\<rparr>"

subsection \<open>Argument extraction (package parse)\<close>

text \<open>
  Modelled from the spec: the helpers \<^verbatim>\<open>parse.ArgUint64Val\<close>, \<^verbatim>\<open>parse.ArgUint32Val\<close>
  and \<^verbatim>\<open>parse.ArgStringVal\<close> of package \<^verbatim>\<open>pkg/events/parse\<close>, which the deriver calls
  and whose source is not given with the deriver. The spec (4.1, 6): a field is
  extracted by name and must have the stated underlying representation; extraction
  fails with an error naming the field when the field is absent or has another
  representation. The field looked at is the first argument of that name.
\<close>

fun findArg :: "Argument list \<Rightarrow> string \<Rightarrow> Argument option" where
  "findArg [] argName = None"
| "findArg (arg # args) argName =
     (if Name arg = argName then Some arg else findArg args argName)"

definition ArgUint64Val :: "Event \<Rightarrow> string \<Rightarrow> 64 word \<times> error option" where
  "ArgUint64Val event argName =
     (case findArg (Args event) argName of
        None \<Rightarrow> (0, Some (ArgNotFound argName))
      | Some arg \<Rightarrow>
          (case Value arg of
             VUint64 v \<Rightarrow> (v, None)
           | _ \<Rightarrow> (0, Some (ArgWrongType argName))))"

definition ArgUint32Val :: "Event \<Rightarrow> string \<Rightarrow> 32 word \<times> error option" where
  "ArgUint32Val event argName =
     (case findArg (Args event) argName of
        None \<Rightarrow> (0, Some (ArgNotFound argName))
      | Some arg \<Rightarrow>
          (case Value arg of
             VUint32 v \<Rightarrow> (v, None)
           | _ \<Rightarrow> (0, Some (ArgWrongType argName))))"

definition ArgStringVal :: "Event \<Rightarrow> string \<Rightarrow> string \<times> error option" where
  "ArgStringVal event argName =
     (case findArg (Args event) argName of
        None \<Rightarrow> ([], Some (ArgNotFound argName))
      | Some arg \<Rightarrow>
          (case Value arg of
             VString v \<Rightarrow> (v, None)
           | _ \<Rightarrow> ([], Some (ArgWrongType argName))))"

text \<open>\<^verbatim>\<open>getSharedObjectInfo\<close>: the four extractions in the order of the source.\<close>

definition getSharedObjectInfo :: "Event \<Rightarrow> ObjInfo \<times> error option" where
  "getSharedObjectInfo event =
     (case ArgUint64Val event ''inode'' of
        (loadedObjectInode, Some err) \<Rightarrow> (zeroObjInfo, Some err)
      | (loadedObjectInode, None) \<Rightarrow>
     (case ArgUint32Val event ''dev'' of
        (loadedObjectDevice, Some err) \<Rightarrow> (zeroObjInfo, Some err)
      | (loadedObjectDevice, None) \<Rightarrow>
     (case ArgUint64Val event ''ctime'' of
        (loadedObjectCtime, Some err) \<Rightarrow> (zeroObjInfo, Some err)
      | (loadedObjectCtime, None) \<Rightarrow>
     (case ArgStringVal event ''pathname'' of
        (loadedObjectPath, Some err) \<Rightarrow> (zeroObjInfo, Some err)
      | (loadedObjectPath, None) \<Rightarrow>
          (\<lparr>ObjId = \<lparr>Inode = loadedObjectInode,
                     Device = loadedObjectDevice,
                     Ctime = loadedObjectCtime\<rparr>,
            Path = loadedObjectPath,
            MountNS = EventMountNS event\<rparr>, None)))))"

subsection \<open>The generator and its construction\<close>

text \<open>
  \<^verbatim>\<open>knownLibrariesDirs\<close>: most specific paths at the top.
\<close>

definition knownLibrariesDirs :: "string list" where
  "knownLibrariesDirs =
     [''/usr/lib/x86_64-linux-gnu/'',
      ''/usr/lib64/'',
      ''/usr/lib/'',
      ''/lib64/'',
      ''/lib/'']"

text \<open>
  A Go \<^verbatim>\<open>map[string]bool\<close> that is iterated is given as the list of its entries in
  the order the run-time system happens to enumerate them; its keys are distinct. The
  symbols loader is an interface whose implementation may keep state (a cache), so
  \<^verbatim>\<open>GetExportedSymbols\<close> takes the loader's state and returns the new one beside
  its two results.
\<close>

type_synonym symbols = "(string \<times> bool) list"

type_synonym 's DynamicSymbolsLoader = "'s \<Rightarrow> ObjInfo \<Rightarrow> (symbols \<times> error option) \<times> 's"

record 's symbolsLoadedEventGenerator =
  soLoader :: "'s DynamicSymbolsLoader"
  watchedSymbols :: "string \<rightharpoonup> bool"
  pathPrefixWhitelist :: "string list"
  librariesWhitelist :: "string list"

text \<open>Reading a \<^verbatim>\<open>map[string]bool\<close> at a key: the zero value when the key is absent.\<close>

definition mapGet :: "(string \<rightharpoonup> bool) \<Rightarrow> string \<Rightarrow> bool" where
  "mapGet m k = (case m k of None \<Rightarrow> False | Some b \<Rightarrow> b)"

text \<open>The two loops of \<^verbatim>\<open>initSymbolsLoadedEventGenerator\<close>.\<close>

fun watchedLoop :: "string list \<Rightarrow> (string \<rightharpoonup> bool) \<Rightarrow> (string \<rightharpoonup> bool)" where
  "watchedLoop [] watchedSymbolsMap = watchedSymbolsMap"
| "watchedLoop (symbol # rest) watchedSymbolsMap =
     watchedLoop rest (watchedSymbolsMap(symbol \<mapsto> True))"

fun whitelistLoop :: "string list \<Rightarrow> string list \<Rightarrow> string list \<Rightarrow> string list \<times> string list" where
  "whitelistLoop [] libraries prefixes = (libraries, prefixes)"
| "whitelistLoop (path # rest) libraries prefixes =
     (if HasPrefix path ''/''
      then whitelistLoop rest libraries (prefixes @ [path])
      else whitelistLoop rest (libraries @ [path]) prefixes)"

definition initSymbolsLoadedEventGenerator ::
  "'s DynamicSymbolsLoader \<Rightarrow> string list \<Rightarrow> string list \<Rightarrow> 's symbolsLoadedEventGenerator" where
  "initSymbolsLoadedEventGenerator loader watched whitelistedLibsPrefixes =
     (let watchedSymbolsMap = watchedLoop watched Map.empty;
          (libraries, prefixes) = whitelistLoop whitelistedLibsPrefixes [] []
      in \<lparr>soLoader = loader,
          watchedSymbols = watchedSymbolsMap,
          pathPrefixWhitelist = prefixes,
          librariesWhitelist = libraries\<rparr>)"

subsection \<open>The whitelist check\<close>

text \<open>
  The loops of \<^verbatim>\<open>isWhitelist\<close>; each returns whether the loop left the function
  with \<^verbatim>\<open>return true\<close>. In the loop over \<^verbatim>\<open>knownLibrariesDirs\<close> the first
  directory that is a prefix of the path ends the loop (\<^verbatim>\<open>break\<close>).
\<close>

fun prefixesLoop :: "string \<Rightarrow> string list \<Rightarrow> bool" where
  "prefixesLoop soPath [] = False"
| "prefixesLoop soPath (pre # rest) =
     (if HasPrefix soPath pre then True else prefixesLoop soPath rest)"

fun librariesLoop :: "string \<Rightarrow> string \<Rightarrow> string list \<Rightarrow> bool" where
  "librariesLoop soPath libsDirectory [] = False"
| "librariesLoop soPath libsDirectory (wlLib # rest) =
     (if HasPrefix soPath (Join [libsDirectory, wlLib]) then True
      else librariesLoop soPath libsDirectory rest)"

fun dirsLoop :: "string \<Rightarrow> string list \<Rightarrow> string list \<Rightarrow> bool" where
  "dirsLoop soPath libs [] = False"
| "dirsLoop soPath libs (libsDirectory # rest) =
     (if HasPrefix soPath libsDirectory
      then librariesLoop soPath libsDirectory libs
      else dirsLoop soPath libs rest)"

definition isWhitelist :: "'s symbolsLoadedEventGenerator \<Rightarrow> string \<Rightarrow> bool" where
  "isWhitelist symbsLoadedGen soPath =
     (if prefixesLoop soPath (pathPrefixWhitelist symbsLoadedGen) then True
      else if length (librariesWhitelist symbsLoadedGen) > 0
      then dirsLoop soPath (librariesWhitelist symbsLoadedGen) knownLibrariesDirs
      else False)"

subsection \<open>Deriving the event arguments\<close>

text \<open>The elements of the \<^verbatim>\<open>[]interface{}\<close> that \<^verbatim>\<open>deriveArgs\<close> returns.\<close>

datatype iface = IString string | IStrings "string list"

text \<open>The loop over the exported symbols, appending the watched ones.\<close>

fun exportedLoop :: "(string \<rightharpoonup> bool) \<Rightarrow> symbols \<Rightarrow> string list \<Rightarrow> string list" where
  "exportedLoop watched [] exportedWatchSymbols = exportedWatchSymbols"
| "exportedLoop watched ((symbol, present) # rest) exportedWatchSymbols =
     (if mapGet watched symbol
      then exportedLoop watched rest (exportedWatchSymbols @ [symbol])
      else exportedLoop watched rest exportedWatchSymbols)"

text \<open>
  \<^verbatim>\<open>deriveArgs\<close> returns the pair of Go: a slice, \<^verbatim>\<open>nil\<close> being \<open>None\<close>, and an
  error, \<^verbatim>\<open>nil\<close> being \<open>None\<close>; beside it, the state of the symbols loader.
\<close>

definition deriveArgs ::
  "'s symbolsLoadedEventGenerator \<Rightarrow> 's \<Rightarrow> Event \<Rightarrow> (iface list option \<times> error option) \<times> 's" where
  "deriveArgs symbsLoadedGen s event =
     (case getSharedObjectInfo event of
        (loadingObjectInfo, Some err) \<Rightarrow> ((None, Some err), s)
      | (loadingObjectInfo, None) \<Rightarrow>
          if isWhitelist symbsLoadedGen (Path loadingObjectInfo) then ((None, None), s)
          else
            (case soLoader symbsLoadedGen s loadingObjectInfo of
               ((soSyms, Some err), s') \<Rightarrow> ((None, Some err), s')
             | ((soSyms, None), s') \<Rightarrow>
                 (let exportedWatchSymbols =
                        exportedLoop (watchedSymbols symbsLoadedGen) soSyms []
                  in if length exportedWatchSymbols > 0
                     then ((Some [IString (Path loadingObjectInfo),
                                  IStrings exportedWatchSymbols], None), s')
                     else ((None, None), s'))))"

subsection \<open>Readings of the specification used in the statements\<close>

text \<open>
  The representation each required field must have (spec 4.1 and 6): \<^verbatim>\<open>inode\<close> and
  \<^verbatim>\<open>ctime\<close> unsigned 64-bit, \<^verbatim>\<open>dev\<close> unsigned 32-bit, \<^verbatim>\<open>pathname\<close> a string.
  A field is absent when no argument has its name, and mistyped when the argument of
  that name holds a value of another representation.
\<close>

datatype arg_type = TUint64 | TUint32 | TString

fun hasType :: "arg_value \<Rightarrow> arg_type \<Rightarrow> bool" where
  "hasType (VUint64 v) t = (t = TUint64)"
| "hasType (VUint32 v) t = (t = TUint32)"
| "hasType (VString v) t = (t = TString)"
| "hasType (VInt v) t = False"
| "hasType VNil t = False"

definition requiredFields :: "(string \<times> arg_type) list" where
  "requiredFields =
     [(''inode'', TUint64), (''dev'', TUint32), (''ctime'', TUint64), (''pathname'', TString)]"

definition fieldAbsent :: "Event \<Rightarrow> string \<Rightarrow> bool" where
  "fieldAbsent event argName = (findArg (Args event) argName = None)"

definition fieldMistyped :: "Event \<Rightarrow> string \<Rightarrow> arg_type \<Rightarrow> bool" where
  "fieldMistyped event argName t =
     (case findArg (Args event) argName of
        None \<Rightarrow> False
      | Some arg \<Rightarrow> \<not> hasType (Value arg) t)"

text \<open>
  An error identifies a missing or mistyped field when it is the not-found error of a
  required field that is absent, or the wrong-type error of a required field that is
  mistyped.
\<close>

definition namesBadField :: "Event \<Rightarrow> error \<Rightarrow> bool" where
  "namesBadField event err =
     list_ex (\<lambda>(argName, t).
        fieldAbsent event argName \<and> err = ArgNotFound argName \<or>
        fieldMistyped event argName t \<and> err = ArgWrongType argName) requiredFields"

text \<open>
  The first entry of a list of directories that is a prefix of the path: the directory
  at which the loop over \<^verbatim>\<open>knownLibrariesDirs\<close> stops.
\<close>

definition firstLibsDirectory :: "string \<Rightarrow> string option" where
  "firstLibsDirectory soPath = find (HasPrefix soPath) knownLibrariesDirs"

subsection \<open>The test doubles of symbols_loaded_test.go\<close>

text \<open>
  \<^verbatim>\<open>symbolsLoaderMock\<close>: its state is the \<^verbatim>\<open>cache\<close> map; \<^verbatim>\<open>GetExportedSymbols\<close>
  returns the entry of the object (the \<^verbatim>\<open>nil\<close> map, which has no entries, when there
  is none) and no error. \<^verbatim>\<open>addSOSymbols\<close> stores the set of the given symbols.
\<close>

type_synonym symbolsLoaderMock = "ObjInfo \<rightharpoonup> symbols"

type_synonym soInstance = "ObjInfo \<times> string list"

definition initLoaderMock :: symbolsLoaderMock where
  "initLoaderMock = Map.empty"

definition mockGetExportedSymbols :: "symbolsLoaderMock DynamicSymbolsLoader" where
  "mockGetExportedSymbols loader objInfo =
     (((case loader objInfo of None \<Rightarrow> [] | Some symsMap \<Rightarrow> symsMap), None), loader)"

definition addSOSymbols :: "symbolsLoaderMock \<Rightarrow> soInstance \<Rightarrow> symbolsLoaderMock" where
  "addSOSymbols loader inst =
     loader(fst inst \<mapsto> map (\<lambda>s. (s, True)) (remdups (snd inst)))"

definition generateSOLoadedEvent :: "int \<Rightarrow> ObjInfo \<Rightarrow> Event" where
  "generateSOLoadedEvent pid so =
     \<lparr>EventName = ''shared_object_loaded'',
      EventID = 1036,
      HostProcessID = pid,
      ProcessID = pid,
      Args =
        [\<lparr>Name = ''pathname'', Type = ''const char*'', Value = VString (Path so)\<rparr>,
         \<lparr>Name = ''flags'', Type = ''int'', Value = VInt 0\<rparr>,
         \<lparr>Name = ''dev'', Type = ''dev_t'', Value = VUint32 (Device (ObjId so))\<rparr>,
         \<lparr>Name = ''inode'', Type = ''unsigned long'', Value = VUint64 (Inode (ObjId so))\<rparr>,
         \<lparr>Name = ''ctime'', Type = ''unsigned long'', Value = VUint64 (Ctime (ObjId so))\<rparr>],
      EventMountNS = 0\<rparr>"

text \<open>The object of the test cases: inode 1 at the given path.\<close>

definition testObject :: "string \<Rightarrow> ObjInfo" where
  "testObject p = \<lparr>ObjId = \<lparr>Inode = 1, Device = 0, Ctime = 0\<rparr>, Path = p, MountNS = 0\<rparr>"

text \<open>
  A loader whose resolution fails: it returns the given error and counts its calls in
  its state.
\<close>

definition failingLoader :: "error \<Rightarrow> nat DynamicSymbolsLoader" where
  "failingLoader err calls objInfo = (([], Some err), Suc calls)"

section \<open>Properties of the loops\<close>

lemma HasPrefix_append: "HasPrefix s pre \<longleftrightarrow> (\<exists>t. s = pre @ t)"
proof
  assume "HasPrefix s pre"
  then have "take (length pre) s = pre"
    by (simp add: HasPrefix_def)
  then have "s = pre @ drop (length pre) s"
    by (metis append_take_drop_id)
  then show "\<exists>t. s = pre @ t" ..
next
  assume "\<exists>t. s = pre @ t"
  then show "HasPrefix s pre"
    by (auto simp: HasPrefix_def)
qed

lemma HasPrefix_trans: "HasPrefix s p \<Longrightarrow> HasPrefix p q \<Longrightarrow> HasPrefix s q"
  by (auto simp: HasPrefix_append)

lemma prefixesLoop_ex: "prefixesLoop soPath ps \<longleftrightarrow> (\<exists>pre\<in>set ps. HasPrefix soPath pre)"
  by (induction ps) auto

lemma librariesLoop_ex:
  "librariesLoop soPath d libs \<longleftrightarrow> (\<exists>wlLib\<in>set libs. HasPrefix soPath (Join [d, wlLib]))"
  by (induction libs) auto

lemma dirsLoop_find:
  "dirsLoop soPath libs dirs =
     (case find (HasPrefix soPath) dirs of
        None \<Rightarrow> False
      | Some d \<Rightarrow> librariesLoop soPath d libs)"
  by (induction dirs) auto

lemma whitelistLoop_filter:
  "whitelistLoop wl libraries prefixes =
     (libraries @ filter (\<lambda>p. \<not> HasPrefix p ''/'') wl,
      prefixes @ filter (\<lambda>p. HasPrefix p ''/'') wl)"
  by (induction wl arbitrary: libraries prefixes) auto

lemma mapGet_watchedLoop:
  "mapGet (watchedLoop ws m) k \<longleftrightarrow> k \<in> set ws \<or> mapGet m k"
  by (induction ws arbitrary: m) (auto simp: mapGet_def)

lemma exportedLoop_filter:
  "exportedLoop watched soSyms acc = acc @ filter (mapGet watched) (map fst soSyms)"
  by (induction soSyms arbitrary: acc) auto

lemma init_fields:
  "soLoader (initSymbolsLoadedEventGenerator loader watched wl) = loader"
  "pathPrefixWhitelist (initSymbolsLoadedEventGenerator loader watched wl) =
     filter (\<lambda>p. HasPrefix p ''/'') wl"
  "librariesWhitelist (initSymbolsLoadedEventGenerator loader watched wl) =
     filter (\<lambda>p. \<not> HasPrefix p ''/'') wl"
  "mapGet (watchedSymbols (initSymbolsLoadedEventGenerator loader watched wl)) k
     \<longleftrightarrow> k \<in> set watched"
  by (simp_all add: initSymbolsLoadedEventGenerator_def whitelistLoop_filter
        mapGet_watchedLoop Let_def) (simp add: mapGet_def)

lemma isWhitelist_char:
  "isWhitelist gen soPath \<longleftrightarrow>
     (\<exists>pre\<in>set (pathPrefixWhitelist gen). HasPrefix soPath pre) \<or>
     (case find (HasPrefix soPath) knownLibrariesDirs of
        None \<Rightarrow> False
      | Some d \<Rightarrow> \<exists>wlLib\<in>set (librariesWhitelist gen). HasPrefix soPath (Join [d, wlLib]))"
  by (cases "librariesWhitelist gen")
     (auto simp: isWhitelist_def prefixesLoop_ex dirsLoop_find librariesLoop_ex
           split: option.splits)

lemma init_watched:
  "mapGet (watchedSymbols (initSymbolsLoadedEventGenerator loader watched wl))
     = (\<lambda>k. k \<in> set watched)"
  by (rule ext) (simp add: init_fields)

lemma isWhitelist_no_rules:
  "\<not> isWhitelist (initSymbolsLoadedEventGenerator loader watched []) soPath"
  by (simp add: isWhitelist_char init_fields split: option.splits)

lemma getSharedObjectInfo_test:
  "getSharedObjectInfo (generateSOLoadedEvent pid (testObject p)) = (testObject p, None)"
  by (simp add: getSharedObjectInfo_def generateSOLoadedEvent_def testObject_def
        ArgUint64Val_def ArgUint32Val_def ArgStringVal_def)

lemma Path_testObject: "Path (testObject p) = p"
  by (simp add: testObject_def)

lemma Join_lib_test: "Join [''/lib/'', ''test''] = ''/lib/test''"
  by code_simp

lemma Join_gnu_empty: "Join [''/usr/lib/x86_64-linux-gnu/'', []] = ''/usr/lib/x86_64-linux-gnu''"
  by code_simp

lemma Join_usr_lib64_empty: "Join [''/usr/lib64/'', []] = ''/usr/lib64''"
  by code_simp

lemma Join_usr_lib_empty: "Join [''/usr/lib/'', []] = ''/usr/lib''"
  by code_simp

lemma Join_lib64_empty: "Join [''/lib64/'', []] = ''/lib64''"
  by code_simp

lemma Join_lib_empty: "Join [''/lib/'', []] = ''/lib''"
  by code_simp

lemma Join_gnu_libc:
  "Join [''/usr/lib/x86_64-linux-gnu/'', ''x86_64-linux-gnu/libc'']
     = ''/usr/lib/x86_64-linux-gnu/x86_64-linux-gnu/libc''"
  by code_simp

lemma Join_usr_lib_libc:
  "Join [''/usr/lib/'', ''x86_64-linux-gnu/libc''] = ''/usr/lib/x86_64-linux-gnu/libc''"
  by code_simp

lemma Join_knownLibrariesDirs_empty:
  "d \<in> set knownLibrariesDirs \<Longrightarrow> Join [d, []] = butlast d"
  by (auto simp: knownLibrariesDirs_def Join_gnu_empty Join_usr_lib64_empty
        Join_usr_lib_empty Join_lib64_empty Join_lib_empty)

lemma HasPrefix_butlast: "HasPrefix d (butlast d)"
  by (simp add: HasPrefix_def butlast_conv_take)

lemma find_first:
  "\<exists>x\<in>set xs. P x \<Longrightarrow> \<exists>y. find P xs = Some y \<and> y \<in> set xs \<and> P y"
  by (induction xs) auto

lemma firstLibsDirectory_Some:
  "firstLibsDirectory soPath = Some d \<Longrightarrow> d \<in> set knownLibrariesDirs \<and> HasPrefix soPath d"
  by (auto simp: firstLibsDirectory_def find_Some_iff)

lemma isWhitelist_first:
  assumes "firstLibsDirectory soPath = Some d"
  shows "isWhitelist gen soPath \<longleftrightarrow>
           (\<exists>pre\<in>set (pathPrefixWhitelist gen). HasPrefix soPath pre) \<or>
           (\<exists>wlLib\<in>set (librariesWhitelist gen). HasPrefix soPath (Join [d, wlLib]))"
  using assms by (simp add: isWhitelist_char firstLibsDirectory_def)

lemma firstLibsDirectory_most_specific:
  assumes "firstLibsDirectory soPath = Some d"
    and "d' \<in> set knownLibrariesDirs"
    and "HasPrefix soPath d'"
  shows "HasPrefix d d'"
proof -
  from assms(1) have d: "HasPrefix soPath d"
    by (simp add: firstLibsDirectory_Some)
  consider "HasPrefix soPath ''/usr/lib/x86_64-linux-gnu/''"
    | "\<not> HasPrefix soPath ''/usr/lib/x86_64-linux-gnu/''" "HasPrefix soPath ''/usr/lib64/''"
    | "\<not> HasPrefix soPath ''/usr/lib/x86_64-linux-gnu/''" "\<not> HasPrefix soPath ''/usr/lib64/''"
      "HasPrefix soPath ''/usr/lib/''"
    | "\<not> HasPrefix soPath ''/usr/lib/x86_64-linux-gnu/''" "\<not> HasPrefix soPath ''/usr/lib64/''"
      "\<not> HasPrefix soPath ''/usr/lib/''" "HasPrefix soPath ''/lib64/''"
    | "\<not> HasPrefix soPath ''/usr/lib/x86_64-linux-gnu/''" "\<not> HasPrefix soPath ''/usr/lib64/''"
      "\<not> HasPrefix soPath ''/usr/lib/''" "\<not> HasPrefix soPath ''/lib64/''"
    by blast
  then show ?thesis
  proof cases
    case 1
    with assms(1) have "d = ''/usr/lib/x86_64-linux-gnu/''"
      by (simp add: firstLibsDirectory_def knownLibrariesDirs_def)
    with 1 assms(2,3) show ?thesis
      by (auto simp: knownLibrariesDirs_def HasPrefix_append)
  next
    case 2
    with assms(1) have "d = ''/usr/lib64/''"
      by (simp add: firstLibsDirectory_def knownLibrariesDirs_def)
    with 2 assms(2,3) show ?thesis
      by (auto simp: knownLibrariesDirs_def HasPrefix_append)
  next
    case 3
    with assms(1) have "d = ''/usr/lib/''"
      by (simp add: firstLibsDirectory_def knownLibrariesDirs_def)
    with 3 assms(2,3) show ?thesis
      by (auto simp: knownLibrariesDirs_def HasPrefix_append)
  next
    case 4
    with assms(1) have "d = ''/lib64/''"
      by (simp add: firstLibsDirectory_def knownLibrariesDirs_def)
    with 4 assms(2,3) show ?thesis
      by (auto simp: knownLibrariesDirs_def HasPrefix_append)
  next
    case 5
    with assms(1) have "d = ''/lib/''"
      by (simp add: firstLibsDirectory_def knownLibrariesDirs_def split: if_splits)
    with 5 assms(2,3) show ?thesis
      by (auto simp: knownLibrariesDirs_def HasPrefix_append)
  qed
qed

lemma ArgUint64Val_ok:
  "ArgUint64Val event n = (v, None) \<Longrightarrow>
     \<not> fieldAbsent event n \<and> \<not> fieldMistyped event n TUint64"
  by (auto simp: ArgUint64Val_def fieldAbsent_def fieldMistyped_def
        split: option.splits arg_value.splits)

lemma ArgUint64Val_err:
  "ArgUint64Val event n = (v, Some e) \<Longrightarrow>
     fieldAbsent event n \<and> e = ArgNotFound n \<or>
     fieldMistyped event n TUint64 \<and> e = ArgWrongType n"
  by (auto simp: ArgUint64Val_def fieldAbsent_def fieldMistyped_def
        split: option.splits arg_value.splits)

lemma ArgUint32Val_ok:
  "ArgUint32Val event n = (v, None) \<Longrightarrow>
     \<not> fieldAbsent event n \<and> \<not> fieldMistyped event n TUint32"
  by (auto simp: ArgUint32Val_def fieldAbsent_def fieldMistyped_def
        split: option.splits arg_value.splits)

lemma ArgUint32Val_err:
  "ArgUint32Val event n = (v, Some e) \<Longrightarrow>
     fieldAbsent event n \<and> e = ArgNotFound n \<or>
     fieldMistyped event n TUint32 \<and> e = ArgWrongType n"
  by (auto simp: ArgUint32Val_def fieldAbsent_def fieldMistyped_def
        split: option.splits arg_value.splits)

lemma ArgStringVal_ok:
  "ArgStringVal event n = (v, None) \<Longrightarrow>
     \<not> fieldAbsent event n \<and> \<not> fieldMistyped event n TString"
  by (auto simp: ArgStringVal_def fieldAbsent_def fieldMistyped_def
        split: option.splits arg_value.splits)

lemma ArgStringVal_err:
  "ArgStringVal event n = (v, Some e) \<Longrightarrow>
     fieldAbsent event n \<and> e = ArgNotFound n \<or>
     fieldMistyped event n TString \<and> e = ArgWrongType n"
  by (auto simp: ArgStringVal_def fieldAbsent_def fieldMistyped_def
        split: option.splits arg_value.splits)

lemma getSharedObjectInfo_bad:
  assumes "(argName, t) \<in> set requiredFields"
    and "fieldAbsent event argName \<or> fieldMistyped event argName t"
  shows "\<exists>err. getSharedObjectInfo event = (zeroObjInfo, Some err) \<and> namesBadField event err"
proof -
  obtain v1 e1 where r1: "ArgUint64Val event ''inode'' = (v1, e1)" by fastforce
  obtain v2 e2 where r2: "ArgUint32Val event ''dev'' = (v2, e2)" by fastforce
  obtain v3 e3 where r3: "ArgUint64Val event ''ctime'' = (v3, e3)" by fastforce
  obtain v4 e4 where r4: "ArgStringVal event ''pathname'' = (v4, e4)" by fastforce
  show ?thesis
  proof (cases e1)
    case (Some err)
    with r1 have "getSharedObjectInfo event = (zeroObjInfo, Some err)"
      by (simp add: getSharedObjectInfo_def)
    moreover from r1 Some have "namesBadField event err"
      using ArgUint64Val_err [of event "''inode''" v1 err]
      by (auto simp: namesBadField_def requiredFields_def)
    ultimately show ?thesis by blast
  next
    case n1: None
    show ?thesis
    proof (cases e2)
      case (Some err)
      with r1 r2 n1 have "getSharedObjectInfo event = (zeroObjInfo, Some err)"
        by (simp add: getSharedObjectInfo_def)
      moreover from r2 Some have "namesBadField event err"
        using ArgUint32Val_err [of event "''dev''" v2 err]
        by (auto simp: namesBadField_def requiredFields_def)
      ultimately show ?thesis by blast
    next
      case n2: None
      show ?thesis
      proof (cases e3)
        case (Some err)
        with r1 r2 r3 n1 n2 have "getSharedObjectInfo event = (zeroObjInfo, Some err)"
          by (simp add: getSharedObjectInfo_def)
        moreover from r3 Some have "namesBadField event err"
          using ArgUint64Val_err [of event "''ctime''" v3 err]
          by (auto simp: namesBadField_def requiredFields_def)
        ultimately show ?thesis by blast
      next
        case n3: None
        show ?thesis
        proof (cases e4)
          case (Some err)
          with r1 r2 r3 r4 n1 n2 n3
          have "getSharedObjectInfo event = (zeroObjInfo, Some err)"
            by (simp add: getSharedObjectInfo_def)
          moreover from r4 Some have "namesBadField event err"
            using ArgStringVal_err [of event "''pathname''" v4 err]
            by (auto simp: namesBadField_def requiredFields_def)
          ultimately show ?thesis by blast
        next
          case n4: None
          from r1 n1 have "\<not> fieldAbsent event ''inode'' \<and> \<not> fieldMistyped event ''inode'' TUint64"
            by (simp add: ArgUint64Val_ok)
          moreover from r2 n2 have "\<not> fieldAbsent event ''dev'' \<and> \<not> fieldMistyped event ''dev'' TUint32"
            by (simp add: ArgUint32Val_ok)
          moreover from r3 n3 have "\<not> fieldAbsent event ''ctime'' \<and> \<not> fieldMistyped event ''ctime'' TUint64"
            by (simp add: ArgUint64Val_ok)
          moreover from r4 n4 have "\<not> fieldAbsent event ''pathname'' \<and> \<not> fieldMistyped event ''pathname'' TString"
            by (simp add: ArgStringVal_ok)
          ultimately have False
            using assms by (auto simp: requiredFields_def)
          then show ?thesis ..
        qed
      qed
    qed
  qed
qed

section \<open>Properties of the deriver\<close>

text \<open>
  C3. For every raw event that extracts successfully, if the extracted path starts with
  a configured whitelist entry that has a leading path separator (a path-prefix rule),
  \<^verbatim>\<open>deriveArgs\<close> returns \<^verbatim>\<open>(nil, nil)\<close>, whatever the loader would report as
  exported symbols; the loader is not called (its state is unchanged).
\<close>

theorem derive_path_prefix_whitelisted:
  assumes "getSharedObjectInfo event = (objInfo, None)"
    and "pre \<in> set whitelist"
    and "HasPrefix pre ''/''"
    and "HasPrefix (Path objInfo) pre"
  shows "deriveArgs (initSymbolsLoadedEventGenerator loader watched whitelist) s event
           = ((None, None), s)"
proof -
  let ?gen = "initSymbolsLoadedEventGenerator loader watched whitelist"
  from assms(2,3) have "pre \<in> set (pathPrefixWhitelist ?gen)"
    by (simp add: init_fields)
  with assms(4) have "isWhitelist ?gen (Path objInfo)"
    unfolding isWhitelist_char by blast
  with assms(1) show ?thesis
    by (simp add: deriveArgs_def)
qed

text \<open>The test case "whitelisted full path SO".\<close>

theorem derive_path_prefix_whitelisted_witness:
  "deriveArgs (initSymbolsLoadedEventGenerator mockGetExportedSymbols
                 [''open'', ''close'', ''write''] [''/tmp/test''])
     (addSOSymbols initLoaderMock (testObject ''/tmp/test.so'', [''open'']))
     (generateSOLoadedEvent 1 (testObject ''/tmp/test.so''))
   = ((None, None), addSOSymbols initLoaderMock (testObject ''/tmp/test.so'', [''open'']))"
  by (rule derive_path_prefix_whitelisted [where pre = "''/tmp/test''",
        OF getSharedObjectInfo_test])
     (simp_all add: Path_testObject HasPrefix_def)

text \<open>
  C7. For every raw event that extracts successfully and is not whitelisted, if the
  symbols loader returns an error for the object, \<^verbatim>\<open>deriveArgs\<close> returns \<^verbatim>\<open>nil\<close>
  and that very error, and the loader has been called once (the state is the one
  after that call).
\<close>

theorem derive_resolver_error:
  assumes "getSharedObjectInfo event = (objInfo, None)"
    and "\<not> isWhitelist gen (Path objInfo)"
    and "soLoader gen s objInfo = ((soSyms, Some err), s')"
  shows "deriveArgs gen s event = ((None, Some err), s')"
  using assms by (simp add: deriveArgs_def)

theorem derive_resolver_error_witness:
  "deriveArgs (initSymbolsLoadedEventGenerator (failingLoader (OtherError ''permission denied''))
                 [''open'', ''close'', ''write''] [])
     0 (generateSOLoadedEvent 1 (testObject ''1.so''))
   = ((None, Some (OtherError ''permission denied'')), 1)"
  by (rule derive_resolver_error [OF getSharedObjectInfo_test isWhitelist_no_rules])
     (simp add: init_fields failingLoader_def)

text \<open>
  C9. For every path, the result of \<^verbatim>\<open>isWhitelist\<close> is the same for two generators
  whose path-prefix rule lists are permutations of each other and whose
  bare-library-name rules are the same.
\<close>

theorem isWhitelist_prefix_order:
  assumes "mset (pathPrefixWhitelist gen) = mset (pathPrefixWhitelist gen')"
    and "librariesWhitelist gen = librariesWhitelist gen'"
  shows "isWhitelist gen soPath = isWhitelist gen' soPath"
proof -
  from assms(1) have "set (pathPrefixWhitelist gen) = set (pathPrefixWhitelist gen')"
    by (rule mset_eq_setD)
  with assms(2) show ?thesis
    by (auto simp: isWhitelist_char split: option.splits)
qed

theorem isWhitelist_prefix_order_witness:
  "isWhitelist (initSymbolsLoadedEventGenerator mockGetExportedSymbols [''open'']
                  [''/tmp/a'', ''test'', ''/opt/b'']) ''/opt/b/1.so''
   = isWhitelist (initSymbolsLoadedEventGenerator mockGetExportedSymbols [''open'']
                  [''/opt/b'', ''/tmp/a'', ''test'']) ''/opt/b/1.so''"
  by (rule isWhitelist_prefix_order)
     (simp_all add: init_fields HasPrefix_def)

text \<open>
  C1. For every raw event that extracts successfully, whose path is not whitelisted and
  for which the symbols loader succeeds, \<^verbatim>\<open>deriveArgs\<close> of a generator built from a
  list of watched symbols returns the path and a list of matches that has no duplicates
  and is, as a set, the intersection of the exported symbols (the keys of the map the
  loader returned, which is what the code ranges over) with the watched symbols, when
  that intersection is not empty; it returns \<^verbatim>\<open>(nil, nil)\<close> when the intersection is
  empty. The map is given with the order in which it is enumerated, its keys being
  distinct as the keys of a Go map are, so the statement holds for every such order. The
  loader has been called once: the state returned is the one after that call.
\<close>

theorem derive_intersection:
  assumes "getSharedObjectInfo event = (objInfo, None)"
    and "\<not> isWhitelist (initSymbolsLoadedEventGenerator loader watched whitelist) (Path objInfo)"
    and "loader s objInfo = ((soSyms, None), s')"
    and "distinct (map fst soSyms)"
  shows "if fst ` set soSyms \<inter> set watched \<noteq> {}
         then \<exists>matches.
                deriveArgs (initSymbolsLoadedEventGenerator loader watched whitelist) s event
                  = ((Some [IString (Path objInfo), IStrings matches], None), s') \<and>
                set matches = fst ` set soSyms \<inter> set watched \<and>
                distinct matches
         else deriveArgs (initSymbolsLoadedEventGenerator loader watched whitelist) s event
                = ((None, None), s')"
proof -
  let ?gen = "initSymbolsLoadedEventGenerator loader watched whitelist"
  let ?matches = "exportedLoop (watchedSymbols ?gen) soSyms []"
  have m: "?matches = filter (\<lambda>k. k \<in> set watched) (map fst soSyms)"
    by (simp add: exportedLoop_filter init_watched)
  have set_m: "set ?matches = fst ` set soSyms \<inter> set watched"
    unfolding m by auto
  have dist_m: "distinct ?matches"
    unfolding m using assms(4) by simp
  have d: "deriveArgs ?gen s event =
             (if length ?matches > 0
              then ((Some [IString (Path objInfo), IStrings ?matches], None), s')
              else ((None, None), s'))"
    using assms(1,2,3) by (simp add: deriveArgs_def init_fields Let_def)
  show ?thesis
  proof (cases "fst ` set soSyms \<inter> set watched = {}")
    case True
    with set_m have "?matches = []" by simp
    with d True show ?thesis by simp
  next
    case False
    with set_m have "?matches \<noteq> []" by auto
    with d have "deriveArgs ?gen s event =
                   ((Some [IString (Path objInfo), IStrings ?matches], None), s')"
      by simp
    with set_m dist_m False show ?thesis by auto
  qed
qed

text \<open>The test case "SO with partly watched export symbols".\<close>

theorem derive_intersection_witness:
  "\<exists>matches.
     deriveArgs (initSymbolsLoadedEventGenerator mockGetExportedSymbols
                   [''open'', ''close'', ''write''] [])
       (addSOSymbols initLoaderMock (testObject ''1.so'', [''open'', ''close'', ''sync'']))
       (generateSOLoadedEvent 1 (testObject ''1.so''))
     = ((Some [IString ''1.so'', IStrings matches], None),
        addSOSymbols initLoaderMock (testObject ''1.so'', [''open'', ''close'', ''sync''])) \<and>
     set matches = {''open'', ''close''} \<and> distinct matches"
proof -
  let ?st = "addSOSymbols initLoaderMock (testObject ''1.so'', [''open'', ''close'', ''sync''])"
  let ?syms = "[(''open'', True), (''close'', True), (''sync'', True)]"
  have l: "mockGetExportedSymbols ?st (testObject ''1.so'') = ((?syms, None), ?st)"
    by (simp add: mockGetExportedSymbols_def addSOSymbols_def)
  have dist: "distinct (map fst ?syms)"
    by simp
  have i: "fst ` set ?syms \<inter> set [''open'', ''close'', ''write''] = {''open'', ''close''}"
    by auto
  show ?thesis
    using derive_intersection [where event = "generateSOLoadedEvent 1 (testObject ''1.so'')"
        and loader = mockGetExportedSymbols and watched = "[''open'', ''close'', ''write'']"
        and whitelist = "[]", OF getSharedObjectInfo_test isWhitelist_no_rules l dist]
    unfolding i Path_testObject by simp
qed

text \<open>
  C4. For every raw event that extracts successfully, if the first entry of
  \<^verbatim>\<open>knownLibrariesDirs\<close> that is a prefix of the extracted path exists and the path
  starts with \<^verbatim>\<open>path.Join\<close> of that directory and some whitelist entry without a
  leading path separator (a bare-library-name rule), \<^verbatim>\<open>deriveArgs\<close> returns
  \<^verbatim>\<open>(nil, nil)\<close>, whatever the loader would report; the loader is not called.
\<close>

theorem derive_library_whitelisted:
  assumes "getSharedObjectInfo event = (objInfo, None)"
    and "firstLibsDirectory (Path objInfo) = Some d"
    and "wlLib \<in> set whitelist"
    and "\<not> HasPrefix wlLib ''/''"
    and "HasPrefix (Path objInfo) (Join [d, wlLib])"
  shows "deriveArgs (initSymbolsLoadedEventGenerator loader watched whitelist) s event
           = ((None, None), s)"
proof -
  let ?gen = "initSymbolsLoadedEventGenerator loader watched whitelist"
  from assms(3,4) have "wlLib \<in> set (librariesWhitelist ?gen)"
    by (simp add: init_fields)
  with assms(5) have "isWhitelist ?gen (Path objInfo)"
    unfolding isWhitelist_first [OF assms(2)] by blast
  with assms(1) show ?thesis
    by (simp add: deriveArgs_def)
qed

text \<open>The test case "whitelisted SO name".\<close>

theorem derive_library_whitelisted_witness:
  "deriveArgs (initSymbolsLoadedEventGenerator mockGetExportedSymbols
                 [''open'', ''close'', ''write''] [''test''])
     (addSOSymbols initLoaderMock (testObject ''/lib/test.so'', [''open'']))
     (generateSOLoadedEvent 1 (testObject ''/lib/test.so''))
   = ((None, None), addSOSymbols initLoaderMock (testObject ''/lib/test.so'', [''open'']))"
proof -
  have f: "firstLibsDirectory (Path (testObject ''/lib/test.so'')) = Some ''/lib/''"
    by (simp add: Path_testObject firstLibsDirectory_def knownLibrariesDirs_def HasPrefix_def)
  show ?thesis
    by (rule derive_library_whitelisted [where wlLib = "''test''",
          OF getSharedObjectInfo_test f])
       (simp_all add: Path_testObject Join_lib_test HasPrefix_def)
qed

text \<open>
  C5. For every path of which more than one entry of \<^verbatim>\<open>knownLibrariesDirs\<close> is a
  prefix, the first such entry is the most specific one (every other such entry is a
  prefix of it), and \<^verbatim>\<open>isWhitelist\<close> is decided by the path-prefix rules and by the
  bare-library-name rules joined with that first entry alone: what the rules joined
  with any other entry give has no part in the result.
\<close>

theorem isWhitelist_first_directory_only:
  assumes "firstLibsDirectory soPath = Some d"
    and "d' \<in> set knownLibrariesDirs"
    and "d' \<noteq> d"
    and "HasPrefix soPath d'"
  shows "HasPrefix d d' \<and>
         (isWhitelist gen soPath \<longleftrightarrow>
            (\<exists>pre\<in>set (pathPrefixWhitelist gen). HasPrefix soPath pre) \<or>
            (\<exists>wlLib\<in>set (librariesWhitelist gen). HasPrefix soPath (Join [d, wlLib])))"
proof
  from assms(1,2,4) show "HasPrefix d d'"
    by (rule firstLibsDirectory_most_specific)
next
  from assms(1) show "isWhitelist gen soPath \<longleftrightarrow>
      (\<exists>pre\<in>set (pathPrefixWhitelist gen). HasPrefix soPath pre) \<or>
      (\<exists>wlLib\<in>set (librariesWhitelist gen). HasPrefix soPath (Join [d, wlLib]))"
    by (rule isWhitelist_first)
qed

text \<open>
  A rule that, joined with the broader directory \<^verbatim>\<open>/usr/lib/\<close>, is a prefix of the
  path, and does not whitelist it.
\<close>

theorem isWhitelist_first_directory_only_witness:
  "HasPrefix ''/usr/lib/x86_64-linux-gnu/libc.so''
     (Join [''/usr/lib/'', ''x86_64-linux-gnu/libc'']) \<and>
   \<not> isWhitelist (initSymbolsLoadedEventGenerator mockGetExportedSymbols [''open'']
                    [''x86_64-linux-gnu/libc''])
        ''/usr/lib/x86_64-linux-gnu/libc.so''"
proof -
  have f: "firstLibsDirectory ''/usr/lib/x86_64-linux-gnu/libc.so''
             = Some ''/usr/lib/x86_64-linux-gnu/''"
    by (simp add: firstLibsDirectory_def knownLibrariesDirs_def HasPrefix_def)
  have d': "''/usr/lib/'' \<in> set knownLibrariesDirs"
    by (simp add: knownLibrariesDirs_def)
  have ne: "''/usr/lib/'' \<noteq> ''/usr/lib/x86_64-linux-gnu/''"
    by simp
  have p: "HasPrefix ''/usr/lib/x86_64-linux-gnu/libc.so'' ''/usr/lib/''"
    by (simp add: HasPrefix_def)
  have a: "HasPrefix ''/usr/lib/x86_64-linux-gnu/libc.so''
             (Join [''/usr/lib/'', ''x86_64-linux-gnu/libc''])"
    by (simp add: Join_usr_lib_libc HasPrefix_def)
  show ?thesis
    using isWhitelist_first_directory_only [OF f d' ne p,
        of "initSymbolsLoadedEventGenerator mockGetExportedSymbols [''open'']
              [''x86_64-linux-gnu/libc'']"] a
    by (simp add: init_fields Join_gnu_libc HasPrefix_def)
qed

text \<open>
  C6. For every raw event in which one of the four required fields (\<^verbatim>\<open>inode\<close>,
  \<^verbatim>\<open>dev\<close>, \<^verbatim>\<open>ctime\<close>, \<^verbatim>\<open>pathname\<close>) is absent or mistyped, there is an error
  identifying a missing or mistyped required field such that \<^verbatim>\<open>deriveArgs\<close> returns
  \<^verbatim>\<open>nil\<close> and that error, for every generator and loader state: neither the whitelist
  nor the watched symbols have a part in the result, and the loader is not called.
\<close>

theorem derive_extraction_failure:
  assumes "(argName, t) \<in> set requiredFields"
    and "fieldAbsent event argName \<or> fieldMistyped event argName t"
  shows "\<exists>err. namesBadField event err \<and>
           (\<forall>(gen :: 's symbolsLoadedEventGenerator) s.
               deriveArgs gen s event = ((None, Some err), s))"
proof -
  from assms obtain err
    where "getSharedObjectInfo event = (zeroObjInfo, Some err)" "namesBadField event err"
    using getSharedObjectInfo_bad by blast
  then show ?thesis
    by (auto simp: deriveArgs_def)
qed

text \<open>An event whose \<^verbatim>\<open>dev\<close> argument is a plain \<^verbatim>\<open>int\<close>.\<close>

theorem derive_extraction_failure_witness:
  "fieldMistyped
     \<lparr>EventName = ''shared_object_loaded'', EventID = 1036, HostProcessID = 1, ProcessID = 1,
      Args = [\<lparr>Name = ''inode'', Type = ''unsigned long'', Value = VUint64 1\<rparr>,
              \<lparr>Name = ''dev'', Type = ''dev_t'', Value = VInt 0\<rparr>],
      EventMountNS = 0\<rparr> ''dev'' TUint32 \<and>
   (\<exists>err.
      namesBadField
        \<lparr>EventName = ''shared_object_loaded'', EventID = 1036, HostProcessID = 1, ProcessID = 1,
         Args = [\<lparr>Name = ''inode'', Type = ''unsigned long'', Value = VUint64 1\<rparr>,
                 \<lparr>Name = ''dev'', Type = ''dev_t'', Value = VInt 0\<rparr>],
         EventMountNS = 0\<rparr> err \<and>
      (\<forall>(gen :: symbolsLoaderMock symbolsLoadedEventGenerator) s.
         deriveArgs gen s
           \<lparr>EventName = ''shared_object_loaded'', EventID = 1036, HostProcessID = 1,
            ProcessID = 1,
            Args = [\<lparr>Name = ''inode'', Type = ''unsigned long'', Value = VUint64 1\<rparr>,
                    \<lparr>Name = ''dev'', Type = ''dev_t'', Value = VInt 0\<rparr>],
            EventMountNS = 0\<rparr>
         = ((None, Some err), s)))"
proof -
  let ?ev = "\<lparr>EventName = ''shared_object_loaded'', EventID = 1036, HostProcessID = 1,
              ProcessID = 1,
              Args = [\<lparr>Name = ''inode'', Type = ''unsigned long'', Value = VUint64 1\<rparr>,
                      \<lparr>Name = ''dev'', Type = ''dev_t'', Value = VInt 0\<rparr>],
              EventMountNS = 0\<rparr>"
  have r: "(''dev'', TUint32) \<in> set requiredFields"
    by (simp add: requiredFields_def)
  have m: "fieldMistyped ?ev ''dev'' TUint32"
    by (simp add: fieldMistyped_def)
  then have "fieldAbsent ?ev ''dev'' \<or> fieldMistyped ?ev ''dev'' TUint32" ..
  from derive_extraction_failure [OF r this] m show ?thesis
    by blast
qed

text \<open>
  C8. Every call of \<^verbatim>\<open>deriveArgs\<close> returns one of three shapes: \<^verbatim>\<open>(nil, nil)\<close>;
  \<^verbatim>\<open>nil\<close> and an error; or, with no error, exactly the two elements path and
  non-empty list of matched symbols, in that order, the path being the extracted one.
  It never returns both arguments and an error.
\<close>

theorem derive_outcomes:
  "(fst (deriveArgs gen s event) = (None, None) \<or>
    (\<exists>err. fst (deriveArgs gen s event) = (None, Some err)) \<or>
    (\<exists>objInfo matches.
        getSharedObjectInfo event = (objInfo, None) \<and> matches \<noteq> [] \<and>
        fst (deriveArgs gen s event) = (Some [IString (Path objInfo), IStrings matches], None)))
   \<and> \<not> (fst (fst (deriveArgs gen s event)) \<noteq> None \<and> snd (fst (deriveArgs gen s event)) \<noteq> None)"
  by (auto simp: deriveArgs_def Let_def split: prod.splits option.splits)

text \<open>The test case "SO with 1 watched export symbols".\<close>

theorem derive_outcomes_witness:
  "(fst (deriveArgs (initSymbolsLoadedEventGenerator mockGetExportedSymbols
                       [''open'', ''close'', ''write''] [])
           (addSOSymbols initLoaderMock (testObject ''1.so'', [''open'']))
           (generateSOLoadedEvent 1 (testObject ''1.so''))) = (None, None) \<or>
    (\<exists>err.
        fst (deriveArgs (initSymbolsLoadedEventGenerator mockGetExportedSymbols
                           [''open'', ''close'', ''write''] [])
               (addSOSymbols initLoaderMock (testObject ''1.so'', [''open'']))
               (generateSOLoadedEvent 1 (testObject ''1.so''))) = (None, Some err)) \<or>
    (\<exists>objInfo matches.
        getSharedObjectInfo (generateSOLoadedEvent 1 (testObject ''1.so'')) = (objInfo, None) \<and>
        matches \<noteq> [] \<and>
        fst (deriveArgs (initSymbolsLoadedEventGenerator mockGetExportedSymbols
                           [''open'', ''close'', ''write''] [])
               (addSOSymbols initLoaderMock (testObject ''1.so'', [''open'']))
               (generateSOLoadedEvent 1 (testObject ''1.so'')))
          = (Some [IString (Path objInfo), IStrings matches], None)))
   \<and> \<not> (fst (fst (deriveArgs (initSymbolsLoadedEventGenerator mockGetExportedSymbols
                                [''open'', ''close'', ''write''] [])
                    (addSOSymbols initLoaderMock (testObject ''1.so'', [''open'']))
                    (generateSOLoadedEvent 1 (testObject ''1.so'')))) \<noteq> None \<and>
          snd (fst (deriveArgs (initSymbolsLoadedEventGenerator mockGetExportedSymbols
                                  [''open'', ''close'', ''write''] [])
                      (addSOSymbols initLoaderMock (testObject ''1.so'', [''open'']))
                      (generateSOLoadedEvent 1 (testObject ''1.so'')))) \<noteq> None)"
  by (rule derive_outcomes)

text \<open>
  C10. If the configured whitelist contains the empty string, that entry is among the
  bare-library-name rules; \<^verbatim>\<open>path.Join\<close> of any entry of \<^verbatim>\<open>knownLibrariesDirs\<close> and
  the empty string is the entry without its trailing separator; and \<^verbatim>\<open>isWhitelist\<close>
  is true for every path of which some entry of \<^verbatim>\<open>knownLibrariesDirs\<close> is a prefix.
\<close>

theorem isWhitelist_empty_rule:
  assumes "[] \<in> set whitelist"
  shows "[] \<in> set (librariesWhitelist (initSymbolsLoadedEventGenerator loader watched whitelist)) \<and>
         (\<forall>d\<in>set knownLibrariesDirs. Join [d, []] = butlast d) \<and>
         (\<forall>soPath. (\<exists>d\<in>set knownLibrariesDirs. HasPrefix soPath d) \<longrightarrow>
            isWhitelist (initSymbolsLoadedEventGenerator loader watched whitelist) soPath)"
proof -
  let ?gen = "initSymbolsLoadedEventGenerator loader watched whitelist"
  from assms have lib: "[] \<in> set (librariesWhitelist ?gen)"
    by (simp add: init_fields HasPrefix_def)
  have wl: "isWhitelist ?gen soPath" if "\<exists>d\<in>set knownLibrariesDirs. HasPrefix soPath d" for soPath
  proof -
    from that have "\<exists>y. find (HasPrefix soPath) knownLibrariesDirs = Some y \<and>
                      y \<in> set knownLibrariesDirs \<and> HasPrefix soPath y"
      by (rule find_first)
    then obtain d where f: "firstLibsDirectory soPath = Some d"
      and d: "d \<in> set knownLibrariesDirs" "HasPrefix soPath d"
      by (auto simp: firstLibsDirectory_def)
    from d(2) have "HasPrefix soPath (butlast d)"
      using HasPrefix_butlast by (rule HasPrefix_trans)
    with d(1) have "HasPrefix soPath (Join [d, []])"
      by (simp add: Join_knownLibrariesDirs_empty)
    with lib show ?thesis
      unfolding isWhitelist_first [OF f] by blast
  qed
  have j: "\<forall>d\<in>set knownLibrariesDirs. Join [d, []] = butlast d"
    by (rule ballI) (rule Join_knownLibrariesDirs_empty)
  from wl have "\<forall>soPath. (\<exists>d\<in>set knownLibrariesDirs. HasPrefix soPath d) \<longrightarrow>
                  isWhitelist ?gen soPath"
    by (intro allI impI)
  with lib j show ?thesis
    by (intro conjI)
qed

theorem isWhitelist_empty_rule_witness:
  "isWhitelist (initSymbolsLoadedEventGenerator mockGetExportedSymbols [''open''] [[]])
     ''/usr/lib64/libcrypto.so''"
proof -
  have "[] \<in> set [[] :: string]"
    by simp
  from isWhitelist_empty_rule [OF this, of mockGetExportedSymbols "[''open'']"]
  have "\<forall>soPath. (\<exists>d\<in>set knownLibrariesDirs. HasPrefix soPath d) \<longrightarrow>
          isWhitelist (initSymbolsLoadedEventGenerator mockGetExportedSymbols [''open''] [[]])
            soPath"
    by (elim conjE)
  then have "(\<exists>d\<in>set knownLibrariesDirs. HasPrefix ''/usr/lib64/libcrypto.so'' d) \<longrightarrow>
          isWhitelist (initSymbolsLoadedEventGenerator mockGetExportedSymbols [''open''] [[]])
            ''/usr/lib64/libcrypto.so''"
    by (rule spec)
  moreover have "\<exists>d\<in>set knownLibrariesDirs. HasPrefix ''/usr/lib64/libcrypto.so'' d"
    by (simp add: knownLibrariesDirs_def HasPrefix_def)
  ultimately show ?thesis ..
qed

end
